theory Spec2Isabelle
  imports Complex_Main
begin

section \<open>JavaScript values used by \<^verbatim>\<open>UserJobs.js\<close>\<close>

text \<open>
  The component computes with JavaScript numbers and strings. A number is modelled as
  \<open>NaN\<close>, one of the two infinities, or an exact rational. Every duration field that is
  a decimal integer below \<open>2^53\<close> is represented exactly; rounding of IEEE doubles and the
  distinction between \<open>+0\<close> and \<open>-0\<close> are not modelled. A value that may be
  \<^verbatim>\<open>undefined\<close> (a missing element of a destructured array, an absent field of a job) is
  an \<open>option\<close> with \<open>None\<close> for \<^verbatim>\<open>undefined\<close>. A string is a list of bytes.
\<close>

datatype jsnum = NaN | NInf | Fin rat | PInf

text \<open>\<^verbatim>\<open>ToNumber\<close> of a value that may be \<^verbatim>\<open>undefined\<close>.\<close>

fun to_num :: "jsnum option \<Rightarrow> jsnum" where
  "to_num None = NaN"
| "to_num (Some x) = x"

text \<open>The operators \<^verbatim>\<open>+\<close>, \<^verbatim>\<open>*\<close> and \<^verbatim>\<open>/\<close> on numbers.\<close>

definition js_add :: "jsnum \<Rightarrow> jsnum \<Rightarrow> jsnum" where
  "js_add x y =
     (case (x, y) of
        (NaN, _) \<Rightarrow> NaN
      | (_, NaN) \<Rightarrow> NaN
      | (PInf, NInf) \<Rightarrow> NaN
      | (NInf, PInf) \<Rightarrow> NaN
      | (PInf, _) \<Rightarrow> PInf
      | (_, PInf) \<Rightarrow> PInf
      | (NInf, _) \<Rightarrow> NInf
      | (_, NInf) \<Rightarrow> NInf
      | (Fin a, Fin b) \<Rightarrow> Fin (a + b))"

definition inf_of_sign :: "rat \<Rightarrow> jsnum" where
  "inf_of_sign q = (if q = 0 then NaN else if 0 < q then PInf else NInf)"

definition js_neg :: "jsnum \<Rightarrow> jsnum" where
  "js_neg x = (case x of NaN \<Rightarrow> NaN | NInf \<Rightarrow> PInf | PInf \<Rightarrow> NInf | Fin a \<Rightarrow> Fin (- a))"

definition js_mul :: "jsnum \<Rightarrow> jsnum \<Rightarrow> jsnum" where
  "js_mul x y =
     (case (x, y) of
        (NaN, _) \<Rightarrow> NaN
      | (_, NaN) \<Rightarrow> NaN
      | (Fin a, Fin b) \<Rightarrow> Fin (a * b)
      | (Fin a, PInf) \<Rightarrow> inf_of_sign a
      | (Fin a, NInf) \<Rightarrow> inf_of_sign (- a)
      | (PInf, Fin b) \<Rightarrow> inf_of_sign b
      | (NInf, Fin b) \<Rightarrow> inf_of_sign (- b)
      | (PInf, PInf) \<Rightarrow> PInf
      | (NInf, NInf) \<Rightarrow> PInf
      | (PInf, NInf) \<Rightarrow> NInf
      | (NInf, PInf) \<Rightarrow> NInf)"

definition js_div :: "jsnum \<Rightarrow> jsnum \<Rightarrow> jsnum" where
  "js_div x y =
     (case (x, y) of
        (NaN, _) \<Rightarrow> NaN
      | (_, NaN) \<Rightarrow> NaN
      | (Fin a, Fin b) \<Rightarrow> (if b = 0 then inf_of_sign a else Fin (a / b))
      | (Fin a, _) \<Rightarrow> Fin 0
      | (PInf, Fin b) \<Rightarrow> (if 0 \<le> b then PInf else NInf)
      | (NInf, Fin b) \<Rightarrow> (if 0 \<le> b then NInf else PInf)
      | (_, _) \<Rightarrow> NaN)"

text \<open>The comparisons \<^verbatim>\<open><\<close> and \<^verbatim>\<open>>=\<close>: both are false when an operand is \<open>NaN\<close>.\<close>

definition js_lt :: "jsnum \<Rightarrow> jsnum \<Rightarrow> bool" where
  "js_lt x y =
     (case (x, y) of
        (NaN, _) \<Rightarrow> False
      | (_, NaN) \<Rightarrow> False
      | (Fin a, Fin b) \<Rightarrow> a < b
      | (NInf, NInf) \<Rightarrow> False
      | (NInf, _) \<Rightarrow> True
      | (_, NInf) \<Rightarrow> False
      | (PInf, _) \<Rightarrow> False
      | (_, PInf) \<Rightarrow> True)"

definition js_ge :: "jsnum \<Rightarrow> jsnum \<Rightarrow> bool" where
  "js_ge x y = (x \<noteq> NaN \<and> y \<noteq> NaN \<and> \<not> js_lt x y)"

text \<open>\<^verbatim>\<open>Math.min\<close> of two numbers: \<open>NaN\<close> when either is.\<close>

definition Math_min :: "jsnum \<Rightarrow> jsnum \<Rightarrow> jsnum" where
  "Math_min x y = (if x = NaN \<or> y = NaN then NaN else if js_lt y x then y else x)"

subsection \<open>Strings\<close>

text \<open>\<^verbatim>\<open>str.split(c)\<close> for a one-character separator: never the empty array.\<close>

fun split_on :: "char \<Rightarrow> string \<Rightarrow> string list" where
  "split_on c [] = [[]]"
| "split_on c (x # xs) =
     (if x = c then [] # split_on c xs
      else (case split_on c xs of [] \<Rightarrow> [[x]] | w # ws \<Rightarrow> (x # w) # ws))"

text \<open>Reading index \<open>i\<close> of an array: \<^verbatim>\<open>undefined\<close> beyond its end.\<close>

definition idx :: "'a list \<Rightarrow> nat \<Rightarrow> 'a option" where
  "idx xs i = (if i < length xs then Some (xs ! i) else None)"

text \<open>\<^verbatim>\<open>str.padStart(2, '0')\<close>: pads to at least two characters, never truncates.\<close>

definition padStart2 :: "string \<Rightarrow> string" where
  "padStart2 s = replicate (2 - length s) (CHR ''0'') @ s"

text \<open>
  The white space that \<^verbatim>\<open>Number\<close> and \<^verbatim>\<open>parseInt\<close> strip: the one-byte characters of
  \<^verbatim>\<open>StrWhiteSpaceChar\<close> (tab, line feed, vertical tab, form feed, carriage return, space).
\<close>

definition is_ws :: "char \<Rightarrow> bool" where
  "is_ws c = (of_char c \<in> {9, 10, 11, 12, 13, 32 :: nat})"

definition trim :: "string \<Rightarrow> string" where
  "trim s = rev (dropWhile is_ws (rev (dropWhile is_ws s)))"

text \<open>The value of a character as a digit; 36 when it is none (so it is a digit of no radix).\<close>

definition digit_val :: "char \<Rightarrow> nat" where
  "digit_val c =
     (let k = of_char c :: nat in
      if 48 \<le> k \<and> k \<le> 57 then k - 48
      else if 97 \<le> k \<and> k \<le> 122 then k - 87
      else if 65 \<le> k \<and> k \<le> 90 then k - 55
      else 36)"

definition is_digit_in :: "nat \<Rightarrow> char \<Rightarrow> bool" where
  "is_digit_in R c = (digit_val c < R)"

definition radix_val :: "nat \<Rightarrow> string \<Rightarrow> nat" where
  "radix_val R ds = foldl (\<lambda>a c. a * R + digit_val c) 0 ds"

text \<open>A non-empty string of decimal digits.\<close>

definition is_nat_str :: "string \<Rightarrow> bool" where
  "is_nat_str s = (s \<noteq> [] \<and> list_all (is_digit_in 10) s)"

subsection \<open>\<^verbatim>\<open>Number(str)\<close>\<close>

text \<open>
  \<^verbatim>\<open>StringToNumber\<close>: white space is trimmed, the empty string is 0, then a binary, octal or
  hexadecimal integer literal, or an optionally signed decimal literal (\<^verbatim>\<open>Infinity\<close>, digits
  with an optional fraction and exponent). Everything else is \<open>NaN\<close>.
\<close>

definition scale10 :: "rat \<Rightarrow> int \<Rightarrow> rat" where
  "scale10 q k = (if 0 \<le> k then q * 10 ^ nat k else q / 10 ^ nat (- k))"

definition exponent_part :: "string \<Rightarrow> int option" where
  "exponent_part r =
     (case r of
        [] \<Rightarrow> Some 0
      | e # ds \<Rightarrow>
          if e = CHR ''e'' \<or> e = CHR ''E'' then
            (case ds of
               [] \<Rightarrow> None
             | c # ds' \<Rightarrow>
                 if c = CHR ''+'' then (if is_nat_str ds' then Some (int (radix_val 10 ds')) else None)
                 else if c = CHR ''-'' then (if is_nat_str ds' then Some (- int (radix_val 10 ds')) else None)
                 else (if is_nat_str ds then Some (int (radix_val 10 ds)) else None))
          else None)"

definition unsigned_decimal :: "string \<Rightarrow> jsnum" where
  "unsigned_decimal u =
     (if u = ''Infinity'' then PInf
      else
        let ip = takeWhile (is_digit_in 10) u;
            r1 = dropWhile (is_digit_in 10) u;
            fp = (case r1 of [] \<Rightarrow> [] | c # r \<Rightarrow> if c = CHR ''.'' then takeWhile (is_digit_in 10) r else []);
            r2 = (case r1 of [] \<Rightarrow> [] | c # r \<Rightarrow> if c = CHR ''.'' then dropWhile (is_digit_in 10) r else r1)
        in if ip = [] \<and> fp = [] then NaN
           else (case exponent_part r2 of
                   None \<Rightarrow> NaN
                 | Some k \<Rightarrow>
                     Fin (scale10 (of_nat (radix_val 10 ip) + of_nat (radix_val 10 fp) / 10 ^ length fp) k)))"

definition radix_literal :: "nat \<Rightarrow> string \<Rightarrow> jsnum" where
  "radix_literal R ds = (if ds \<noteq> [] \<and> list_all (is_digit_in R) ds then Fin (of_nat (radix_val R ds)) else NaN)"

definition Number_str :: "string \<Rightarrow> jsnum" where
  "Number_str s =
     (let t = trim s in
      if t = [] then Fin 0
      else if take 2 t = ''0x'' \<or> take 2 t = ''0X'' then radix_literal 16 (drop 2 t)
      else if take 2 t = ''0o'' \<or> take 2 t = ''0O'' then radix_literal 8 (drop 2 t)
      else if take 2 t = ''0b'' \<or> take 2 t = ''0B'' then radix_literal 2 (drop 2 t)
      else (case t of
              [] \<Rightarrow> Fin 0
            | c # u \<Rightarrow>
                if c = CHR ''+'' then unsigned_decimal u
                else if c = CHR ''-'' then js_neg (unsigned_decimal u)
                else unsigned_decimal t))"

subsection \<open>\<^verbatim>\<open>parseInt(str, radix)\<close>\<close>

text \<open>
  Leading white space and a sign are skipped, then the longest prefix of digits of the
  radix is read; \<open>NaN\<close> when that prefix is empty. Without a radix (\<open>None\<close>) the radix is
  10, or 16 after a \<^verbatim>\<open>0x\<close> prefix.
\<close>

definition parseInt :: "string \<Rightarrow> nat option \<Rightarrow> jsnum" where
  "parseInt str radix =
     (let s0 = dropWhile is_ws str;
          neg = (case s0 of [] \<Rightarrow> False | c # r \<Rightarrow> c = CHR ''-'');
          s1 = (case s0 of [] \<Rightarrow> [] | c # r \<Rightarrow> if c = CHR ''-'' \<or> c = CHR ''+'' then r else s0);
          R0 = (case radix of None \<Rightarrow> 0 | Some r \<Rightarrow> r)
      in if R0 \<noteq> 0 \<and> (R0 < 2 \<or> 36 < R0) then NaN
         else
           let hex = ((R0 = 0 \<or> R0 = 16) \<and> (take 2 s1 = ''0x'' \<or> take 2 s1 = ''0X''));
               s2 = (if hex then drop 2 s1 else s1);
               R = (if hex then 16 else if R0 = 0 then 10 else R0);
               ds = takeWhile (is_digit_in R) s2
           in if ds = [] then NaN
              else Fin (of_int ((if neg then - 1 else 1) * int (radix_val R ds))))"

subsection \<open>\<^verbatim>\<open>String(number)\<close>\<close>

definition digit_char :: "nat \<Rightarrow> char" where
  "digit_char d = char_of (48 + d)"

fun dec_str :: "nat \<Rightarrow> string" where
  "dec_str n = (if n < 10 then [digit_char n] else dec_str (n div 10) @ [digit_char (n mod 10)])"

declare dec_str.simps [simp del]

fun frac_digits :: "nat \<Rightarrow> rat \<Rightarrow> string" where
  "frac_digits 0 r = []"
| "frac_digits (Suc k) r =
     (if r = 0 then []
      else digit_char (nat \<lfloor>r * 10\<rfloor>) # frac_digits k (r * 10 - of_int \<lfloor>r * 10\<rfloor>))"

text \<open>
  \<^verbatim>\<open>Number::toString\<close>: the decimal digits of an integer, and the positional decimal
  expansion (at most 17 fraction digits) of another value. The exponent notation that
  JavaScript uses from \<open>10^21\<close> on and below \<open>10^-6\<close> is not modelled; no statement below
  is about such a value.
\<close>

definition String_num :: "jsnum \<Rightarrow> string" where
  "String_num x =
     (case x of
        NaN \<Rightarrow> ''NaN''
      | PInf \<Rightarrow> ''Infinity''
      | NInf \<Rightarrow> ''-Infinity''
      | Fin r \<Rightarrow>
          (let a = \<bar>r\<bar>; ip = nat \<lfloor>a\<rfloor>; fr = a - of_nat ip
           in (if r < 0 then ''-'' else '''') @ dec_str ip
              @ (if fr = 0 then '''' else ''.'' @ frac_digits 17 fr)))"

text \<open>\<^verbatim>\<open>String(v)\<close> of a value that may be \<^verbatim>\<open>undefined\<close>.\<close>

definition String_val :: "jsnum option \<Rightarrow> string" where
  "String_val v = (case v of None \<Rightarrow> ''undefined'' | Some x \<Rightarrow> String_num x)"

section \<open>The duration functions of \<^verbatim>\<open>UserJobs.js\<close>\<close>

text \<open>
  \<^verbatim>\<open>daysPart\<close> of \<^verbatim>\<open>incrementTime\<close> is \<^verbatim>\<open>null\<close>, the string before the first \<^verbatim>\<open>-\<close>, or,
  after a carry, a number.
\<close>

datatype days_part = DNull | DStr string | DNum jsnum

definition truthy_days :: "days_part \<Rightarrow> bool" where
  "truthy_days d =
     (case d of DNull \<Rightarrow> False | DStr s \<Rightarrow> s \<noteq> [] | DNum x \<Rightarrow> x \<noteq> NaN \<and> x \<noteq> Fin 0)"

definition days_text :: "days_part \<Rightarrow> string" where
  "days_text d = (case d of DNull \<Rightarrow> ''null'' | DStr s \<Rightarrow> s | DNum x \<Rightarrow> String_num x)"

text \<open>
  Lines 55 to 61 of \<^verbatim>\<open>incrementTime\<close>: one second is added, the carries are taken in
  order, and the string is rebuilt from the day part and the three fields as destructured
  by lines 52 and 53.
\<close>

definition carry_and_rebuild ::
  "days_part \<Rightarrow> jsnum option \<Rightarrow> jsnum option \<Rightarrow> jsnum option \<Rightarrow> string" where
  "carry_and_rebuild daysPart0 h0 m0 s0 =
     (let s1 = js_add (to_num s0) (Fin 1);
          c1 = js_ge s1 (Fin 60);
          s2 = (if c1 then Fin 0 else s1);
          m1 = (if c1 then Some (js_add (to_num m0) (Fin 1)) else m0);
          c2 = js_ge (to_num m1) (Fin 60);
          m2 = (if c2 then Some (Fin 0) else m1);
          h1 = (if c2 then Some (js_add (to_num h0) (Fin 1)) else h0);
          c3 = (truthy_days daysPart0 \<and> js_ge (to_num h1) (Fin 24));
          h2 = (if c3 then Some (Fin 0) else h1);
          daysPart1 = (if c3 then DNum (js_add (parseInt (days_text daysPart0) None) (Fin 1))
                       else daysPart0);
          newTime = padStart2 (String_val h2) @ '':'' @ padStart2 (String_val m2)
                    @ '':'' @ padStart2 (String_num s2)
      in if truthy_days daysPart1 then days_text daysPart1 @ ''-'' @ newTime else newTime)"

text \<open>
  \<^verbatim>\<open>incrementTime(timeStr)\<close>, lines 49 to 62. The argument is \<open>None\<close> when the field is
  absent. With a \<^verbatim>\<open>-\<close> in the string, \<^verbatim>\<open>split("-")\<close> has at least two elements
  (lemma \<open>split_on_length\<close> below), so both indices are in range.
\<close>

definition incrementTime :: "string option \<Rightarrow> string" where
  "incrementTime timeStr =
     (case timeStr of
        None \<Rightarrow> ''0:00:01''
      | Some t \<Rightarrow>
          if t = [] then ''0:00:01''
          else
            let parts = split_on (CHR ''-'') t;
                daysPart0 = (if CHR ''-'' \<in> set t then DStr (parts ! 0) else DNull);
                timePart = (if CHR ''-'' \<in> set t then parts ! 1 else t);
                nums = map Number_str (split_on (CHR '':'') timePart)
            in carry_and_rebuild daysPart0 (idx nums 0) (idx nums 1) (idx nums 2))"

text \<open>\<^verbatim>\<open>toSeconds(timeStr)\<close>, the local function of \<^verbatim>\<open>getElapsedPercentage\<close>, lines 83 to 96.\<close>

definition toSeconds :: "string option \<Rightarrow> jsnum" where
  "toSeconds timeStr =
     (case timeStr of
        None \<Rightarrow> Fin 0
      | Some t \<Rightarrow>
          if t = [] then Fin 0
          else
            let parts = split_on (CHR ''-'') t;
                days = (if CHR ''-'' \<in> set t then parseInt (parts ! 0) (Some 10) else Fin 0);
                timePart = (if CHR ''-'' \<in> set t then parts ! 1 else t);
                nums = map Number_str (split_on (CHR '':'') timePart);
                h = to_num (idx nums 0);
                m = to_num (idx nums 1);
                s = to_num (idx nums 2)
            in js_add (js_add (js_add (js_mul days (Fin 86400)) (js_mul h (Fin 3600)))
                              (js_mul m (Fin 60))) s)"

text \<open>
  \<^verbatim>\<open>x.toFixed(2)\<close> read back as a number, which is what \<^verbatim>\<open>Math.min\<close> does with the string:
  the nearest multiple of \<open>1/100\<close>, the one of larger magnitude on a tie; from \<open>10^21\<close> on
  \<^verbatim>\<open>toFixed\<close> is \<^verbatim>\<open>String(x)\<close>, which reads back as \<open>x\<close>.
\<close>

definition round2 :: "rat \<Rightarrow> rat" where
  "round2 x =
     (if 0 \<le> x then of_int \<lfloor>x * 100 + 1 / 2\<rfloor> / 100 else - (of_int \<lfloor>- x * 100 + 1 / 2\<rfloor> / 100))"

definition toFixed2_num :: "jsnum \<Rightarrow> jsnum" where
  "toFixed2_num x =
     (case x of
        NaN \<Rightarrow> NaN
      | PInf \<Rightarrow> PInf
      | NInf \<Rightarrow> NInf
      | Fin r \<Rightarrow> if 10 ^ 21 \<le> \<bar>r\<bar> then Fin r else Fin (round2 r))"

text \<open>\<^verbatim>\<open>getElapsedPercentage(elapsed, requested)\<close>, lines 82 to 102.\<close>

definition getElapsedPercentage :: "string option \<Rightarrow> string option \<Rightarrow> jsnum" where
  "getElapsedPercentage elapsed requested =
     (let elapsedSec = toSeconds elapsed;
          requestedSec = toSeconds requested
      in if requestedSec = Fin 0 then Fin 0
         else Math_min (Fin 100) (toFixed2_num (js_mul (js_div elapsedSec requestedSec) (Fin 100))))"

text \<open>\<^verbatim>\<open>getColor(percentage)\<close>, lines 104 to 108: the class of the percentage text.\<close>

definition getColor :: "jsnum \<Rightarrow> string" where
  "getColor percentage =
     (if js_lt percentage (Fin 50) then ''text-green-600''
      else if js_lt percentage (Fin 75) then ''text-yellow-500''
      else ''text-red-600'')"

text \<open>The class of the progress-bar fill, the conditional expression of lines 182 to 188.\<close>

definition barFill :: "jsnum \<Rightarrow> string" where
  "barFill timePercentage =
     (if js_ge timePercentage (Fin 75) then ''bg-red-600''
      else if js_ge timePercentage (Fin 50) then ''bg-yellow-500''
      else ''bg-green-500'')"

section \<open>The component state and its updates\<close>

record job =
  job_id :: string
  job_name :: string
  submit_dir :: "string option"
  state :: string
  cpus :: nat
  nodes :: nat
  time_elapsed :: "string option"
  time_requested :: "string option"

text \<open>
  The four \<^verbatim>\<open>useState\<close> cells of the component, and the trace of the
  \<^verbatim>\<open>POST /api/cancel_job/<id>\<close> requests issued so far (the job ids, oldest first).
\<close>

record component =
  jobs :: "job list"
  loading :: bool
  error :: "string option"
  isCanceling :: "string option"
  requests :: "string list"

text \<open>Truthiness of a string that may be absent: only a non-empty string is truthy.\<close>

definition truthy_str :: "string option \<Rightarrow> bool" where
  "truthy_str v = (case v of None \<Rightarrow> False | Some s \<Rightarrow> s \<noteq> [])"

definition message_of :: "string option \<Rightarrow> string" where
  "message_of v = (case v of None \<Rightarrow> [] | Some s \<Rightarrow> s)"

text \<open>
  How a \<^verbatim>\<open>fetch(...).then(res => res.json())\<close> chain settles: rejected with an error whose
  message is given (network failure, body that is not JSON), or resolved with the parsed body.
\<close>

datatype 'a outcome = Rejected string | Resolved 'a

record jobs_response =
  r_error :: "string option"
  r_jobs :: "job list option"

record cancel_response =
  c_error :: "string option"

text \<open>
  The handlers of the jobs fetch, lines 19 to 26: \<^verbatim>\<open>then\<close> throws on a truthy
  \<^verbatim>\<open>data.error\<close> and stores \<^verbatim>\<open>data.jobs || []\<close> otherwise, \<^verbatim>\<open>catch\<close> stores the message,
  \<^verbatim>\<open>finally\<close> clears \<^verbatim>\<open>loading\<close>.
\<close>

definition jobs_settled :: "jobs_response outcome \<Rightarrow> component \<Rightarrow> component" where
  "jobs_settled out c =
     (case out of
        Rejected msg \<Rightarrow> c\<lparr>error := Some msg, loading := False\<rparr>
      | Resolved data \<Rightarrow>
          if truthy_str (r_error data)
          then c\<lparr>error := Some (message_of (r_error data)), loading := False\<rparr>
          else c\<lparr>jobs := (case r_jobs data of None \<Rightarrow> [] | Some js \<Rightarrow> js), loading := False\<rparr>)"

text \<open>The callback of the one-second interval, lines 31 to 43.\<close>

definition tick :: "component \<Rightarrow> component" where
  "tick c =
     c\<lparr>jobs := map (\<lambda>job. if state job = ''R''
                              then job\<lparr>time_elapsed := Some (incrementTime (time_elapsed job))\<rparr>
                              else job) (jobs c)\<rparr>"

text \<open>
  \<^verbatim>\<open>cancelJob(jobId)\<close>, lines 111 to 121, in its two parts: the call, which marks the job
  and issues the request, and the handlers that run when the request settles.
\<close>

definition cancelJob :: "string \<Rightarrow> component \<Rightarrow> component" where
  "cancelJob jobId c = c\<lparr>isCanceling := Some jobId, requests := requests c @ [jobId]\<rparr>"

definition cancel_settled :: "string \<Rightarrow> cancel_response outcome \<Rightarrow> component \<Rightarrow> component" where
  "cancel_settled jobId out c =
     (case out of
        Rejected msg \<Rightarrow> c\<lparr>error := Some msg, isCanceling := None\<rparr>
      | Resolved data \<Rightarrow>
          if truthy_str (c_error data)
          then c\<lparr>error := Some (message_of (c_error data)), isCanceling := None\<rparr>
          else c\<lparr>jobs := filter (\<lambda>job. job_id job \<noteq> jobId) (jobs c), isCanceling := None\<rparr>)"

text \<open>
  A click on the cancel button of job \<open>jobId\<close>, lines 123 to 124 and 200 to 210. The button
  is rendered only when the component is neither loading nor showing an error and the job
  is in the list, and it is \<^verbatim>\<open>disabled\<close>, so that the click runs no handler, while
  \<^verbatim>\<open>isCanceling === job.job_id\<close>. The state is the one of the last render.
\<close>

definition button_enabled :: "string \<Rightarrow> component \<Rightarrow> bool" where
  "button_enabled jobId c =
     (\<not> loading c \<and> \<not> truthy_str (error c) \<and> jobId \<in> set (map job_id (jobs c))
      \<and> isCanceling c \<noteq> Some jobId)"

definition click_cancel :: "string \<Rightarrow> component \<Rightarrow> component" where
  "click_cancel jobId c = (if button_enabled jobId c then cancelJob jobId c else c)"

section \<open>The notions of the specification\<close>










text \<open>The severity tiers of the specification and the tier a colour class stands for.\<close>

datatype tier = Low | Medium | High

definition spec_tier :: "rat \<Rightarrow> tier" where
  "spec_tier v = (if v < 50 then Low else if v < 75 then Medium else High)"

definition tier_of_class :: "string \<Rightarrow> tier option" where
  "tier_of_class cls =
     (if cls = ''text-green-600'' \<or> cls = ''bg-green-500'' then Some Low
      else if cls = ''text-yellow-500'' \<or> cls = ''bg-yellow-500'' then Some Medium
      else if cls = ''text-red-600'' \<or> cls = ''bg-red-600'' then Some High
      else None)"










text \<open>
  The jobs of the scenarios: a running job, a pending job, and a component showing both.
\<close>

definition job_A :: job where
  "job_A = \<lparr>job_id = ''101'', job_name = ''A'', submit_dir = None, state = ''R'', cpus = 4, nodes = 1,
            time_elapsed = Some ''0:00:10'', time_requested = Some ''1:00:00''\<rparr>"

definition job_B :: job where
  "job_B = \<lparr>job_id = ''102'', job_name = ''B'', submit_dir = Some ''/scratch/user/b'', state = ''PD'',
            cpus = 8, nodes = 2, time_elapsed = Some ''0:00:00'', time_requested = Some ''2-00:00:00''\<rparr>"

definition shown :: component where
  "shown = \<lparr>jobs = [job_A, job_B], loading = False, error = None, isCanceling = None, requests = []\<rparr>"

section \<open>Facts about the string and number functions\<close>














lemma radix_val_Nil [simp]: "radix_val R [] = 0"
  by (simp add: radix_val_def)

lemma radix_val_snoc [simp]: "radix_val R (ds @ [c]) = radix_val R ds * R + digit_val c"
  by (simp add: radix_val_def)




















section \<open>The duration functions on well-formed strings\<close>























section \<open>Numbers that are not negative\<close>

lemma js_NaN [simp]:
  "js_add x NaN = NaN" "js_add NaN x = NaN" "js_mul x NaN = NaN" "js_mul NaN x = NaN"
  "js_div x NaN = NaN" "js_div NaN x = NaN" "\<not> js_lt x NaN" "\<not> js_lt NaN x"
  by (cases x; simp add: js_add_def js_mul_def js_div_def js_lt_def)+
















section \<open>The ticker\<close>

text \<open>
  Claim C7. On a tick every job whose state is \<^verbatim>\<open>"R"\<close> has its elapsed time replaced by
  \<^verbatim>\<open>incrementTime\<close> of it and keeps every other field, every other job is the same job
  as before, at the same position, and the list has the same length; nothing else of the
  component changes.
\<close>

theorem tick_frame:
  "length (jobs (tick c)) = length (jobs c)
   \<and> (\<forall>i < length (jobs c).
        (state (jobs c ! i) = ''R'' \<longrightarrow>
           jobs (tick c) ! i = (jobs c ! i)\<lparr>time_elapsed := Some (incrementTime (time_elapsed (jobs c ! i)))\<rparr>)
        \<and> (state (jobs c ! i) \<noteq> ''R'' \<longrightarrow> jobs (tick c) ! i = jobs c ! i))
   \<and> loading (tick c) = loading c \<and> error (tick c) = error c
   \<and> isCanceling (tick c) = isCanceling c \<and> requests (tick c) = requests c"
  by (simp add: tick_def)

theorem tick_frame_witness:
  "0 < length (jobs shown) \<and> state (jobs shown ! 0) = ''R''
   \<and> jobs (tick shown) ! 0 = job_A\<lparr>time_elapsed := Some ''00:00:11''\<rparr>
   \<and> 1 < length (jobs shown) \<and> state (jobs shown ! 1) \<noteq> ''R''
   \<and> jobs (tick shown) ! 1 = job_B"
proof -
  have i: "incrementTime (Some ''0:00:10'') = ''00:00:11''" by code_simp
  have l: "0 < length (jobs shown)" "1 < length (jobs shown)" by (simp_all add: shown_def)
  have a: "jobs shown ! 0 = job_A" "jobs shown ! 1 = job_B" by (simp_all add: shown_def)
  have st: "state job_A = ''R''" "state job_B \<noteq> ''R''" "time_elapsed job_A = Some ''0:00:10''"
    by (simp_all add: job_A_def job_B_def)
  from tick_frame [of shown] l have
    "(state (jobs shown ! 0) = ''R'' \<longrightarrow>
        jobs (tick shown) ! 0 = (jobs shown ! 0)\<lparr>time_elapsed := Some (incrementTime (time_elapsed (jobs shown ! 0)))\<rparr>)"
    "(state (jobs shown ! 1) \<noteq> ''R'' \<longrightarrow> jobs (tick shown) ! 1 = jobs shown ! 1)"
    by blast+
  with l a st i show ?thesis by simp
qed

section \<open>The jobs fetch\<close>

text \<open>
  Claim C8. When the jobs fetch fails, by a rejected promise or by a response whose
  \<^verbatim>\<open>error\<close> field is a non-empty message, the job list is the one held before, the
  message is stored in \<^verbatim>\<open>error\<close>, and \<^verbatim>\<open>loading\<close> is cleared.
\<close>

theorem jobs_fetch_failure:
  "jobs (jobs_settled (Rejected msg) c) = jobs c
   \<and> error (jobs_settled (Rejected msg) c) = Some msg
   \<and> loading (jobs_settled (Rejected msg) c) = False
   \<and> (truthy_str (r_error data) \<longrightarrow>
        jobs (jobs_settled (Resolved data) c) = jobs c
        \<and> error (jobs_settled (Resolved data) c) = r_error data
        \<and> loading (jobs_settled (Resolved data) c) = False)"
  by (auto simp: jobs_settled_def truthy_str_def message_of_def split: option.splits)

theorem jobs_fetch_failure_witness:
  "truthy_str (r_error \<lparr>r_error = Some ''squeue failed'', r_jobs = None\<rparr>)
   \<and> jobs (jobs_settled (Resolved \<lparr>r_error = Some ''squeue failed'', r_jobs = None\<rparr>) shown) = [job_A, job_B]
   \<and> error (jobs_settled (Resolved \<lparr>r_error = Some ''squeue failed'', r_jobs = None\<rparr>) shown)
       = Some ''squeue failed''"
proof -
  have t: "truthy_str (r_error \<lparr>r_error = Some ''squeue failed'', r_jobs = None\<rparr>)"
    by (simp add: truthy_str_def)
  with jobs_fetch_failure [of "''x''" shown "\<lparr>r_error = Some ''squeue failed'', r_jobs = None\<rparr>"]
  show ?thesis by (simp add: shown_def)
qed

section \<open>Cancelling a job\<close>

text \<open>
  Claim C9. When the cancel request fails, by a rejected promise or by a response whose
  \<^verbatim>\<open>error\<close> field is a non-empty message, the message is stored in \<^verbatim>\<open>error\<close> and the
  job list is unchanged, so a listed job stays listed; and however the request settles,
  \<^verbatim>\<open>isCanceling\<close> is cleared.
\<close>

theorem cancel_failure_keeps_jobs:
  "jobs (cancel_settled jobId (Rejected msg) c) = jobs c
   \<and> error (cancel_settled jobId (Rejected msg) c) = Some msg
   \<and> (truthy_str (c_error data) \<longrightarrow>
        jobs (cancel_settled jobId (Resolved data) c) = jobs c
        \<and> error (cancel_settled jobId (Resolved data) c) = c_error data)
   \<and> isCanceling (cancel_settled jobId out c) = None"
  by (cases out) (auto simp: cancel_settled_def truthy_str_def message_of_def split: option.splits)

theorem cancel_failure_keeps_jobs_witness:
  "truthy_str (c_error \<lparr>c_error = Some ''scancel: permission denied''\<rparr>)
   \<and> jobs (cancel_settled ''102'' (Resolved \<lparr>c_error = Some ''scancel: permission denied''\<rparr>)
             (cancelJob ''102'' shown)) = [job_A, job_B]
   \<and> error (cancel_settled ''102'' (Resolved \<lparr>c_error = Some ''scancel: permission denied''\<rparr>)
              (cancelJob ''102'' shown)) = Some ''scancel: permission denied''
   \<and> isCanceling (cancel_settled ''102'' (Resolved \<lparr>c_error = Some ''scancel: permission denied''\<rparr>)
                   (cancelJob ''102'' shown)) = None"
proof -
  have t: "truthy_str (c_error \<lparr>c_error = Some ''scancel: permission denied''\<rparr>)"
    by (simp add: truthy_str_def)
  with cancel_failure_keeps_jobs [of "''102''" "''x''" "cancelJob ''102'' shown"
      "\<lparr>c_error = Some ''scancel: permission denied''\<rparr>"
      "Resolved \<lparr>c_error = Some ''scancel: permission denied''\<rparr>"]
  show ?thesis by (simp add: shown_def cancelJob_def)
qed

text \<open>
  Claim C1, as stated, fails: \<^verbatim>\<open>cancelJob\<close> has no guard, and two calls in succession for
  one job issue two requests.
\<close>

theorem cancelJob_twice_two_requests:
  "requests (cancelJob ''101'' (cancelJob ''101'' shown)) = [''101'', ''101'']"
  by (simp add: cancelJob_def shown_def)

text \<open>
  Claim C1, amended. Every call of \<^verbatim>\<open>cancelJob\<close> issues a request and sets the marker.
  The guard is the \<^verbatim>\<open>disabled\<close> attribute of the button: a click on the button of the
  marked job changes nothing, so of two clicks in succession on an enabled button the
  first issues the one request and the second none; no error is raised or stored.
\<close>

theorem click_cancel_twice:
  "requests (cancelJob jobId c) = requests c @ [jobId]
   \<and> isCanceling (cancelJob jobId c) = Some jobId
   \<and> click_cancel jobId (click_cancel jobId c) = click_cancel jobId c
   \<and> (button_enabled jobId c \<longrightarrow>
        requests (click_cancel jobId (click_cancel jobId c)) = requests c @ [jobId]
        \<and> error (click_cancel jobId (click_cancel jobId c)) = error c)
   \<and> (isCanceling c = Some jobId \<longrightarrow> click_cancel jobId c = c)"
  by (auto simp: click_cancel_def cancelJob_def button_enabled_def)

theorem click_cancel_twice_witness:
  "button_enabled ''101'' shown
   \<and> requests (click_cancel ''101'' (click_cancel ''101'' shown)) = [''101'']
   \<and> isCanceling (click_cancel ''101'' shown) = Some ''101''"
proof -
  have b: "button_enabled ''101'' shown"
    by (simp add: button_enabled_def shown_def job_A_def job_B_def truthy_str_def)
  have m: "isCanceling (click_cancel ''101'' shown) = Some ''101''"
    using b by (simp add: click_cancel_def cancelJob_def)
  have r: "requests shown = []" by (simp add: shown_def)
  from click_cancel_twice [of "''101''" shown] b
  have q: "requests (click_cancel ''101'' (click_cancel ''101'' shown)) = requests shown @ [''101'']"
    by blast
  from q b m r show ?thesis by simp
qed

section \<open>The percentage\<close>



section \<open>The two colour mappings\<close>

text \<open>
  On every number other than \<open>NaN\<close> the class of the text and the class of the bar stand
  for the same tier, the one of the thresholds 50 and 75.
\<close>

lemma color_mappings_agree:
  "p \<noteq> NaN \<Longrightarrow> tier_of_class (getColor p) = tier_of_class (barFill p)"
  "tier_of_class (getColor (Fin v)) = Some (spec_tier v)"
  "tier_of_class (barFill (Fin v)) = Some (spec_tier v)"
  by (cases p; auto simp: getColor_def barFill_def tier_of_class_def spec_tier_def js_lt_def js_ge_def)+

text \<open>
  Claim C6 at a percentage that is \<open>NaN\<close>, as \<^verbatim>\<open>getElapsedPercentage\<close> returns for an
  elapsed time of two fields: both comparisons of \<^verbatim>\<open>getColor\<close> are false, so the text
  is red (High), and both comparisons of the bar are false, so the bar is green (Low).
\<close>

theorem color_mappings_disagree:
  "getElapsedPercentage (Some ''12:34'') (Some ''1:00:00'') = NaN
   \<and> getColor (getElapsedPercentage (Some ''12:34'') (Some ''1:00:00'')) = ''text-red-600''
   \<and> barFill (getElapsedPercentage (Some ''12:34'') (Some ''1:00:00'')) = ''bg-green-500''
   \<and> tier_of_class ''text-red-600'' = Some High \<and> tier_of_class ''bg-green-500'' = Some Low"
proof -
  have p: "getElapsedPercentage (Some ''12:34'') (Some ''1:00:00'') = NaN" by code_simp
  have c: "getColor NaN = ''text-red-600''" "barFill NaN = ''bg-green-500''"
    by (simp_all add: getColor_def barFill_def js_ge_def)
  have t: "tier_of_class ''text-red-600'' = Some High" "tier_of_class ''bg-green-500'' = Some Low"
    by (simp_all add: tier_of_class_def)
  from p c t show ?thesis by simp
qed

lemma toFixed2_NaN [simp]: "toFixed2_num NaN = NaN"
  by (simp add: toFixed2_num_def)

lemma Math_min_NaN [simp]: "Math_min x NaN = NaN"
  by (simp add: Math_min_def)

section \<open>Strings that are not durations\<close>




section \<open>The form of the incremented string\<close>






section \<open>One second more\<close>








section \<open>Strings without a day prefix\<close>









end
